theory Spec2Isabelle
  imports Main
begin

section \<open>JavaScript values\<close>

text \<open>
  The report script is one statement: an assignment of an object literal to
  \<^verbatim>\<open>frappe.query_reports["Warehouse Wise Stock Balance Cluster"]\<close>.
  The literal is built from strings, the numbers 0, 1 and 3, the boolean \<^verbatim>\<open>true\<close>, an
  array and nested objects. An object keeps its properties in the order of the literal.
\<close>

datatype jsval =
    JUndefined
  | JBool bool
  | JNum int
  | JStr string
  | JArr "jsval list"
  | JObj "(string \<times> jsval) list"

text \<open>
  \<^verbatim>\<open>obj.hasOwnProperty(k)\<close>: whether the object carries the key at all. Only own
  properties are modelled; none of the keys read below is a member of
  \<^verbatim>\<open>Object.prototype\<close>.
\<close>

fun has_key :: "jsval \<Rightarrow> string \<Rightarrow> bool" where
  "has_key (JObj kvs) k = (k \<in> set (map fst kvs))"
| "has_key _ _ = False"

text \<open>
  \<^verbatim>\<open>obj[k]\<close>: a property read. A key written twice in a literal keeps its last value, and
  a key that is absent reads as \<^verbatim>\<open>undefined\<close>.
\<close>

fun get :: "jsval \<Rightarrow> string \<Rightarrow> jsval" where
  "get (JObj kvs) k = (case map_of (rev kvs) k of None \<Rightarrow> JUndefined | Some v \<Rightarrow> v)"
| "get _ _ = JUndefined"

fun elems :: "jsval \<Rightarrow> jsval list" where
  "elems (JArr xs) = xs"
| "elems _ = []"

fun is_nonneg_int :: "jsval \<Rightarrow> bool" where
  "is_nonneg_int (JNum n) = (0 \<le> n)"
| "is_nonneg_int _ = False"

fun is_nonempty_str :: "jsval \<Rightarrow> bool" where
  "is_nonempty_str (JStr s) = (s \<noteq> [])"
| "is_nonempty_str _ = False"

section \<open>The host functions the literal calls\<close>

text \<open>
  The literal calls two functions of the host framework while it is being built:
  \<^verbatim>\<open>__(s)\<close>, the localization of a source string, and
  \<^verbatim>\<open>frappe.defaults.get_user_default(key)\<close>, the current user's default for a key.
  Neither is part of the repository, so both are parameters of the model.
\<close>

record env =
  translate :: "string \<Rightarrow> string"
  get_user_default :: "string \<Rightarrow> jsval"

section \<open>The report script\<close>

definition report_name :: string where
  "report_name = ''Warehouse Wise Stock Balance Cluster''"

text \<open>
  The object literal of the script. Both calls are call expressions inside the literal,
  so they are evaluated when the literal is, and the object holds their results.
\<close>

definition report_config :: "env \<Rightarrow> jsval" where
  "report_config e = JObj
     [(''filters'', JArr
        [JObj
           [(''fieldname'', JStr ''company''),
            (''label'', JStr (translate e ''Company'')),
            (''fieldtype'', JStr ''Link''),
            (''options'', JStr ''Company''),
            (''reqd'', JNum 1),
            (''default'', get_user_default e ''Company'')],
         JObj
           [(''fieldname'', JStr ''show_disabled_warehouses''),
            (''label'', JStr (translate e ''Show Disabled Warehouses'')),
            (''fieldtype'', JStr ''Check''),
            (''default'', JNum 0)]]),
      (''initial_depth'', JNum 3),
      (''tree'', JBool True),
      (''parent_field'', JStr ''parent_warehouse''),
      (''name_field'', JStr ''warehouse'')]"

definition filters_of :: "jsval \<Rightarrow> jsval list" where
  "filters_of c = elems (get c ''filters'')"

section \<open>The registry and the module load\<close>

text \<open>
  \<^verbatim>\<open>frappe.query_reports\<close> is a plain object of the host, used as a dictionary from
  report names to configurations. Reading a name that was never assigned gives
  \<^verbatim>\<open>undefined\<close>.
\<close>

type_synonym registry = "string \<rightharpoonup> jsval"

definition empty_registry :: registry where
  "empty_registry = Map.empty"

definition lookup :: "registry \<Rightarrow> string \<Rightarrow> jsval" where
  "lookup reg n = (case reg n of None \<Rightarrow> JUndefined | Some c \<Rightarrow> c)"

text \<open>\<^verbatim>\<open>frappe.query_reports[n] = c\<close>\<close>

definition assign :: "registry \<Rightarrow> string \<Rightarrow> jsval \<Rightarrow> registry" where
  "assign reg n c = reg(n \<mapsto> c)"

text \<open>
  Running the script: the literal is evaluated in the host environment of that moment and
  assigned under the report name.
\<close>

definition load_module :: "env \<Rightarrow> registry \<Rightarrow> registry" where
  "load_module e reg = assign reg report_name (report_config e)"

definition registered_filters :: "registry \<Rightarrow> jsval list" where
  "registered_filters reg = filters_of (lookup reg report_name)"

subsection \<open>The life of the registry entry\<close>

text \<open>
  What can happen to the entry. \<open>Load e\<close>: the script runs while the host environment
  is \<open>e\<close>; nothing in the script guards against a second run. The other events are
  the host's: \<open>Read\<close> is the property read, which leaves the registry as it is.
  \<open>Write v\<close> is an assignment to the entry by other code; it also stands for a change
  made inside the registered object, after which the entry holds the structure \<open>v\<close>:
  the script freezes neither the object nor the property. \<open>Delete\<close> is
  \<^verbatim>\<open>delete frappe.query_reports[name]\<close>. Values are compared by structure.
\<close>

datatype event = Load env | Read | Write jsval | Delete

fun step :: "event \<Rightarrow> registry \<Rightarrow> registry" where
  "step (Load e) reg = load_module e reg"
| "step Read reg = reg"
| "step (Write v) reg = assign reg report_name v"
| "step Delete reg = reg(report_name := None)"

text \<open>The registry before the first event and after each event.\<close>

fun run :: "event list \<Rightarrow> registry \<Rightarrow> registry list" where
  "run [] reg = [reg]"
| "run (ev # evs) reg = reg # run evs (step ev reg)"

text \<open>What the host's reads return, in order.\<close>

fun reads :: "event list \<Rightarrow> registry \<Rightarrow> jsval list" where
  "reads [] reg = []"
| "reads (Read # evs) reg = lookup reg report_name # reads evs reg"
| "reads (ev # evs) reg = reads evs (step ev reg)"

datatype lifecycle = Unregistered | Registered jsval

definition status :: "registry \<Rightarrow> lifecycle" where
  "status reg = (case reg report_name of None \<Rightarrow> Unregistered | Some c \<Rightarrow> Registered c)"

fun transitions :: "lifecycle list \<Rightarrow> nat" where
  "transitions (x # y # ys) = (if x = y then 0 else 1) + transitions (y # ys)"
| "transitions _ = 0"

text \<open>
  Whether an event leaves an entry that holds \<open>c\<close> as it is: a read does; a run of the
  script does when the literal evaluates to \<open>c\<close> again; a write does when it writes
  \<open>c\<close>; a delete does not.
\<close>

fun keeps :: "jsval \<Rightarrow> event \<Rightarrow> bool" where
  "keeps c (Load e) = (report_config e = c)"
| "keeps c Read = True"
| "keeps c (Write v) = (v = c)"
| "keeps c Delete = False"

subsection \<open>Two host environments\<close>

text \<open>
  An English session whose user has the default company "Acme", and a German session
  whose user has the default company "Globex".
\<close>

definition env_en :: env where
  "env_en = \<lparr>translate = (\<lambda>s. s),
             get_user_default = (\<lambda>k. if k = ''Company'' then JStr ''Acme'' else JUndefined)\<rparr>"

definition env_de :: env where
  "env_de = \<lparr>translate = (\<lambda>s. if s = ''Company'' then ''Firma''
                             else if s = ''Show Disabled Warehouses''
                               then ''Deaktivierte Lager anzeigen'' else s),
             get_user_default = (\<lambda>k. if k = ''Company'' then JStr ''Globex'' else JUndefined)\<rparr>"

section \<open>Facts about the literal\<close>

lemma filters_of_report_config:
  "filters_of (report_config e) =
     [JObj
        [(''fieldname'', JStr ''company''),
         (''label'', JStr (translate e ''Company'')),
         (''fieldtype'', JStr ''Link''),
         (''options'', JStr ''Company''),
         (''reqd'', JNum 1),
         (''default'', get_user_default e ''Company'')],
      JObj
        [(''fieldname'', JStr ''show_disabled_warehouses''),
         (''label'', JStr (translate e ''Show Disabled Warehouses'')),
         (''fieldtype'', JStr ''Check''),
         (''default'', JNum 0)]]"
  by (simp add: filters_of_def report_config_def)

lemma lookup_load_module: "lookup (load_module e reg) report_name = report_config e"
  by (simp add: lookup_def load_module_def assign_def)

lemma registered_filters_load_module:
  "registered_filters (load_module e reg) = filters_of (report_config e)"
  by (simp add: registered_filters_def lookup_load_module)

lemma load_module_other:
  "n \<noteq> report_name \<Longrightarrow> load_module e reg n = reg n"
  by (simp add: load_module_def assign_def)

lemma report_config_keys:
  "has_key (report_config e) ''filters''
   \<and> has_key (report_config e) ''initial_depth''
   \<and> has_key (report_config e) ''tree''
   \<and> has_key (report_config e) ''parent_field''
   \<and> has_key (report_config e) ''name_field''"
  by (simp add: report_config_def)

lemma report_config_defined: "report_config e \<noteq> JUndefined"
  by (simp add: report_config_def)

lemma step_keeps:
  "reg report_name = Some c \<Longrightarrow> keeps c ev \<Longrightarrow> step ev reg = reg"
  by (cases ev) (auto simp: load_module_def assign_def)

lemma step_changes:
  "reg report_name = Some c \<Longrightarrow> \<not> keeps c ev \<Longrightarrow> status (step ev reg) \<noteq> status reg"
  by (cases ev) (auto simp: load_module_def assign_def status_def)

lemma transitions_run_Cons:
  "transitions (x # map status (run evs reg))
     = (if x = status reg then 0 else 1) + transitions (map status (run evs reg))"
  by (cases evs) simp_all

lemma transitions_zero_iff:
  "reg report_name = Some c \<Longrightarrow>
     (transitions (map status (run evs reg)) = 0) = list_all (keeps c) evs"
proof (induction evs arbitrary: reg)
  case Nil
  then show ?case by simp
next
  case (Cons ev evs)
  show ?case
  proof (cases "keeps c ev")
    case True
    with Cons.prems have "step ev reg = reg"
      by (simp add: step_keeps)
    with True Cons.prems Cons.IH [of reg] show ?thesis
      by (simp add: transitions_run_Cons)
  next
    case False
    with Cons.prems have "status (step ev reg) \<noteq> status reg"
      by (simp add: step_changes)
    with False show ?thesis
      by (auto simp: transitions_run_Cons)
  qed
qed

lemma reads_kept:
  "reg report_name = Some c \<Longrightarrow> list_all (keeps c) evs \<Longrightarrow>
     reads evs reg = replicate (count_list evs Read) c"
proof (induction evs)
  case Nil
  then show ?case by simp
next
  case (Cons ev evs)
  then have "step ev reg = reg"
    by (simp add: step_keeps)
  with Cons show ?case
    by (cases ev) (simp_all add: lookup_def del: step.simps)
qed

section \<open>Tree display options\<close>

text \<open>
  C2. The registered configuration has \<^verbatim>\<open>tree\<close> equal to true, \<^verbatim>\<open>initial_depth\<close> equal
  to 3, \<^verbatim>\<open>parent_field\<close> equal to "parent_warehouse" and \<^verbatim>\<open>name_field\<close> equal to
  "warehouse"; \<^verbatim>\<open>initial_depth\<close> is an integer that is at least 0.
\<close>

theorem tree_options:
  "get (lookup (load_module e reg) report_name) ''tree'' = JBool True
   \<and> get (lookup (load_module e reg) report_name) ''initial_depth'' = JNum 3
   \<and> get (lookup (load_module e reg) report_name) ''parent_field'' = JStr ''parent_warehouse''
   \<and> get (lookup (load_module e reg) report_name) ''name_field'' = JStr ''warehouse''
   \<and> is_nonneg_int (get (lookup (load_module e reg) report_name) ''initial_depth'')"
  by (simp add: lookup_load_module report_config_def)

section \<open>The filters\<close>

text \<open>
  C1, as the script has it. The filters list has exactly 2 entries, in this order: first
  the filter with fieldname "company", of type Link, with options "Company" (a non-empty
  string) and reqd 1; then the filter with fieldname "show_disabled_warehouses", of type
  Check, with default 0 and with no reqd key, so that its reqd reads as undefined.
\<close>

theorem filters_shape:
  "length (registered_filters (load_module e reg)) = 2
   \<and> get (registered_filters (load_module e reg) ! 0) ''fieldname'' = JStr ''company''
   \<and> get (registered_filters (load_module e reg) ! 0) ''fieldtype'' = JStr ''Link''
   \<and> get (registered_filters (load_module e reg) ! 0) ''options'' = JStr ''Company''
   \<and> is_nonempty_str (get (registered_filters (load_module e reg) ! 0) ''options'')
   \<and> get (registered_filters (load_module e reg) ! 0) ''reqd'' = JNum 1
   \<and> get (registered_filters (load_module e reg) ! 1) ''fieldname''
       = JStr ''show_disabled_warehouses''
   \<and> get (registered_filters (load_module e reg) ! 1) ''fieldtype'' = JStr ''Check''
   \<and> get (registered_filters (load_module e reg) ! 1) ''default'' = JNum 0
   \<and> has_key (registered_filters (load_module e reg) ! 1) ''reqd'' = False
   \<and> get (registered_filters (load_module e reg) ! 1) ''reqd'' = JUndefined"
  by (simp add: registered_filters_load_module filters_of_report_config)

text \<open>
  C1, as the claim words it, asks for reqd = 0 on the second filter. The script writes no
  reqd there, and the read gives undefined, not the number 0.
\<close>

theorem second_filter_reqd_not_zero:
  "get (registered_filters (load_module env_en empty_registry) ! 1) ''reqd'' \<noteq> JNum 0"
  by (simp add: registered_filters_load_module filters_of_report_config)

text \<open>
  C3. Any two distinct entries of the filters list have different fieldnames.
\<close>

theorem fieldnames_unique:
  assumes "i < length (registered_filters (load_module e reg))"
    and "j < length (registered_filters (load_module e reg))"
    and "i \<noteq> j"
  shows "get (registered_filters (load_module e reg) ! i) ''fieldname''
       \<noteq> get (registered_filters (load_module e reg) ! j) ''fieldname''"
proof -
  let ?names = "map (\<lambda>f. get f ''fieldname'') (registered_filters (load_module e reg))"
  have d: "distinct ?names"
    by (simp add: registered_filters_load_module filters_of_report_config)
  have li: "i < length ?names" and lj: "j < length ?names"
    using assms by simp_all
  have "?names ! i \<noteq> ?names ! j"
    using d li lj assms(3) nth_eq_iff_index_eq [of ?names i j] by blast
  then show ?thesis
    using assms by simp
qed

theorem fieldnames_unique_witness:
  "(0::nat) < length (registered_filters (load_module env_en empty_registry))
   \<and> (1::nat) < length (registered_filters (load_module env_en empty_registry))
   \<and> (0::nat) \<noteq> 1
   \<and> get (registered_filters (load_module env_en empty_registry) ! 0) ''fieldname''
       \<noteq> get (registered_filters (load_module env_en empty_registry) ! 1) ''fieldname''"
proof -
  have a: "(0::nat) < length (registered_filters (load_module env_en empty_registry))"
    by (simp add: registered_filters_load_module filters_of_report_config)
  have b: "(1::nat) < length (registered_filters (load_module env_en empty_registry))"
    by (simp add: registered_filters_load_module filters_of_report_config)
  have c: "(0::nat) \<noteq> 1" by simp
  show ?thesis
    using a b c fieldnames_unique [OF a b c] by blast
qed

text \<open>
  C9. In every filter, reqd, where the key appears, is the number 0 or the number 1 (a
  number, not a boolean), and fieldtype is the string "Link" or the string "Check".
\<close>

theorem reqd_and_fieldtype_values:
  assumes "f \<in> set (registered_filters (load_module e reg))"
  shows "(has_key f ''reqd'' \<longrightarrow> get f ''reqd'' = JNum 0 \<or> get f ''reqd'' = JNum 1)
       \<and> (get f ''fieldtype'' = JStr ''Link'' \<or> get f ''fieldtype'' = JStr ''Check'')"
  using assms by (auto simp: registered_filters_load_module filters_of_report_config)

theorem reqd_and_fieldtype_values_witness:
  "registered_filters (load_module env_en empty_registry) ! 0
     \<in> set (registered_filters (load_module env_en empty_registry))
   \<and> has_key (registered_filters (load_module env_en empty_registry) ! 0) ''reqd''
   \<and> get (registered_filters (load_module env_en empty_registry) ! 0) ''reqd'' = JNum 1
   \<and> get (registered_filters (load_module env_en empty_registry) ! 0) ''fieldtype''
       = JStr ''Link''"
proof -
  let ?f = "registered_filters (load_module env_en empty_registry) ! 0"
  have m: "?f \<in> set (registered_filters (load_module env_en empty_registry))"
    by (simp add: registered_filters_load_module filters_of_report_config)
  have k: "has_key ?f ''reqd''"
    by (simp add: registered_filters_load_module filters_of_report_config)
  have n: "get ?f ''reqd'' \<noteq> JNum 0"
    by (simp add: registered_filters_load_module filters_of_report_config)
  have t: "get ?f ''fieldtype'' \<noteq> JStr ''Check''"
    by (simp add: registered_filters_load_module filters_of_report_config)
  show ?thesis
    using m k n t reqd_and_fieldtype_values [OF m] by blast
qed

text \<open>
  C10. The "show_disabled_warehouses" filter has no reqd key and no options key, so its
  reqd reads as undefined; and a filter that has an options key is of type Link.
\<close>

theorem check_filter_absent_keys:
  "get (registered_filters (load_module e reg) ! 1) ''fieldname''
     = JStr ''show_disabled_warehouses''
   \<and> has_key (registered_filters (load_module e reg) ! 1) ''reqd'' = False
   \<and> has_key (registered_filters (load_module e reg) ! 1) ''options'' = False
   \<and> get (registered_filters (load_module e reg) ! 1) ''reqd'' = JUndefined
   \<and> (\<forall>f \<in> set (registered_filters (load_module e reg)).
         has_key f ''options'' \<longrightarrow> get f ''fieldtype'' = JStr ''Link'')"
  by (simp add: registered_filters_load_module filters_of_report_config)

theorem check_filter_absent_keys_witness:
  "registered_filters (load_module env_en empty_registry) ! 0
     \<in> set (registered_filters (load_module env_en empty_registry))
   \<and> has_key (registered_filters (load_module env_en empty_registry) ! 0) ''options''
   \<and> get (registered_filters (load_module env_en empty_registry) ! 0) ''fieldtype''
       = JStr ''Link''
   \<and> has_key (registered_filters (load_module env_en empty_registry) ! 1) ''options'' = False"
proof -
  let ?f = "registered_filters (load_module env_en empty_registry) ! 0"
  have m: "?f \<in> set (registered_filters (load_module env_en empty_registry))"
    by (simp add: registered_filters_load_module filters_of_report_config)
  have k: "has_key ?f ''options''"
    by (simp add: registered_filters_load_module filters_of_report_config)
  show ?thesis
    using m k check_filter_absent_keys [of env_en empty_registry] by blast
qed

section \<open>Values taken from the host\<close>

text \<open>
  C5, as the script has it. The default of the "company" filter is the current user's
  default for "Company", looked up through the host when the literal is built, that is
  when the script runs and registers the configuration. The registered descriptor holds
  the value found then.
\<close>

theorem company_default_at_load:
  "get (registered_filters (load_module e reg) ! 0) ''fieldname'' = JStr ''company''
   \<and> get (registered_filters (load_module e reg) ! 0) ''default''
       = get_user_default e ''Company''"
  by (simp add: registered_filters_load_module filters_of_report_config)

text \<open>
  C5, as the claim words it, has the lookup deferred to render time. Registered in the
  English session and read while the user's default is that of the German session, the
  descriptor still holds the registration-time value.
\<close>

theorem company_default_not_deferred:
  "get (registered_filters (load_module env_en empty_registry) ! 0) ''default''
     \<noteq> get_user_default env_de ''Company''"
  by (simp add: registered_filters_load_module filters_of_report_config env_en_def env_de_def)

text \<open>
  C6, as the script has it. Each filter's label is the localization of its source string,
  "Company" and "Show Disabled Warehouses" respectively, looked up when the literal is
  built; the registered descriptor holds the resulting string.
\<close>

theorem labels_at_load:
  "get (registered_filters (load_module e reg) ! 0) ''label''
     = JStr (translate e ''Company'')
   \<and> get (registered_filters (load_module e reg) ! 1) ''label''
     = JStr (translate e ''Show Disabled Warehouses'')"
  by (simp add: registered_filters_load_module filters_of_report_config)

text \<open>
  C6, as the claim words it, has the label resolved at render time. Registered in the
  English session and rendered in the German one, the descriptor holds the English string.
\<close>

theorem label_not_resolved_at_render:
  "get (registered_filters (load_module env_en empty_registry) ! 0) ''label''
     \<noteq> JStr (translate env_de ''Company'')"
  by (simp add: registered_filters_load_module filters_of_report_config env_en_def env_de_def)

section \<open>Registration\<close>

text \<open>
  C4, as the script has it. A run of the script writes one entry of the registry, the
  one named "Warehouse Wise Stock Balance Cluster", and leaves every other name alone.
  From a registry without that name, the entry goes from unregistered to registered, and
  the host's read then returns the configuration built in that run: an object with the
  keys filters, initial_depth, tree, parent_field and name_field, not the undefined of an
  unregistered name. The script makes nothing read-only and may run again, so what
  follows depends on the later events. The entry has exactly one transition precisely
  when every later event keeps the registered structure: a read, a run of the script that
  builds the same configuration again, or a write of that same structure. In that case
  every read returns that configuration.
\<close>

theorem registration_lifecycle:
  assumes "reg report_name = None"
  shows "lookup (load_module e reg) ''Warehouse Wise Stock Balance Cluster'' = report_config e
       \<and> lookup (load_module e reg) report_name \<noteq> lookup reg report_name
       \<and> has_key (lookup (load_module e reg) report_name) ''filters''
       \<and> has_key (lookup (load_module e reg) report_name) ''initial_depth''
       \<and> has_key (lookup (load_module e reg) report_name) ''tree''
       \<and> has_key (lookup (load_module e reg) report_name) ''parent_field''
       \<and> has_key (lookup (load_module e reg) report_name) ''name_field''
       \<and> (\<forall>n. n \<noteq> report_name \<longrightarrow> load_module e reg n = reg n)
       \<and> status reg = Unregistered
       \<and> status (load_module e reg) = Registered (report_config e)
       \<and> (transitions (map status (run (Load e # evs) reg)) = 1)
           = list_all (keeps (report_config e)) evs
       \<and> (list_all (keeps (report_config e)) evs \<longrightarrow>
            reads (Load e # evs) reg = replicate (count_list evs Read) (report_config e))"
proof -
  have r: "load_module e reg report_name = Some (report_config e)"
    by (simp add: load_module_def assign_def)
  have n: "lookup (load_module e reg) ''Warehouse Wise Stock Balance Cluster'' = report_config e"
    using lookup_load_module [of e reg] by (simp add: report_name_def)
  have u: "lookup (load_module e reg) report_name \<noteq> lookup reg report_name"
    using assms report_config_defined [of e] lookup_load_module [of e reg]
    by (simp add: lookup_def)
  have k: "has_key (lookup (load_module e reg) report_name) ''filters''
       \<and> has_key (lookup (load_module e reg) report_name) ''initial_depth''
       \<and> has_key (lookup (load_module e reg) report_name) ''tree''
       \<and> has_key (lookup (load_module e reg) report_name) ''parent_field''
       \<and> has_key (lookup (load_module e reg) report_name) ''name_field''"
    using report_config_keys [of e] by (simp only: lookup_load_module)
  have o: "\<forall>n. n \<noteq> report_name \<longrightarrow> load_module e reg n = reg n"
    by (simp add: load_module_other)
  have s0: "status reg = Unregistered"
    using assms by (simp add: status_def)
  have s1: "status (load_module e reg) = Registered (report_config e)"
    using r by (simp add: status_def)
  have t: "(transitions (map status (run (Load e # evs) reg)) = 1)
             = list_all (keeps (report_config e)) evs"
    using r transitions_zero_iff [of "load_module e reg" "report_config e" evs] s0 s1
    by (simp add: transitions_run_Cons)
  have d: "list_all (keeps (report_config e)) evs \<longrightarrow>
             reads (Load e # evs) reg = replicate (count_list evs Read) (report_config e)"
    using r reads_kept [of "load_module e reg" "report_config e" evs] by simp
  show ?thesis
    using n u k o s0 s1 t d by blast
qed

theorem registration_lifecycle_witness:
  "empty_registry report_name = None
   \<and> ''Stock Balance'' \<noteq> report_name
   \<and> load_module env_en empty_registry ''Stock Balance'' = empty_registry ''Stock Balance''
   \<and> list_all (keeps (report_config env_en)) [Read, Load env_en, Read]
   \<and> transitions (map status (run [Load env_en, Read, Load env_en, Read] empty_registry)) = 1
   \<and> reads [Load env_en, Read, Load env_en, Read] empty_registry
       = [report_config env_en, report_config env_en]"
proof -
  have h: "empty_registry report_name = None"
    by (simp add: empty_registry_def)
  have m: "''Stock Balance'' \<noteq> report_name"
    by (simp add: report_name_def)
  have l: "list_all (keeps (report_config env_en)) [Read, Load env_en, Read]"
    by simp
  have c: "replicate (count_list [Read, Load env_en, Read] Read) (report_config env_en)
             = [report_config env_en, report_config env_en]"
    by (simp add: numeral_2_eq_2)
  show ?thesis
    using h m l c registration_lifecycle [of empty_registry env_en "[Read, Load env_en, Read]"]
    by (simp del: run.simps reads.simps keeps.simps)
qed

text \<open>
  C4, as the claim words it, has the configuration constructed exactly once and never
  changed afterwards. The script runs in the English session, the host reads the entry,
  the script runs again in the German session, and the host reads again: the entry has
  two transitions, and the two reads return different structures.
\<close>

theorem rerun_changes_entry:
  "transitions (map status (run [Load env_en, Read, Load env_de, Read] empty_registry)) = 2
   \<and> reads [Load env_en, Read, Load env_de, Read] empty_registry
       = [report_config env_en, report_config env_de]
   \<and> report_config env_en \<noteq> report_config env_de"
proof -
  have ne: "report_config env_en \<noteq> report_config env_de"
    by (simp add: report_config_def env_en_def env_de_def)
  have t: "transitions (map status (run [Load env_en, Read, Load env_de, Read] empty_registry)) = 2"
    using ne by (simp add: status_def load_module_def assign_def empty_registry_def)
  have d: "reads [Load env_en, Read, Load env_de, Read] empty_registry
             = [report_config env_en, report_config env_de]"
    by (simp add: lookup_def load_module_def assign_def)
  show ?thesis
    using ne t d by simp
qed

text \<open>
  C7. Assigning the same configuration twice under the report name leaves the registry
  as one assignment does, and the configuration read back is the one assigned.
\<close>

theorem registration_idempotent:
  "assign (assign reg report_name c) report_name c = assign reg report_name c
   \<and> lookup (assign (assign reg report_name c) report_name c) report_name = c
   \<and> load_module e (load_module e reg) = load_module e reg
   \<and> lookup (load_module e (load_module e reg)) report_name = report_config e"
  by (simp add: load_module_def assign_def lookup_def)

end
